theory Spec2Isabelle
  imports Complex_Main "HOL-Library.Multiset"
begin

section \<open>Strings\<close>

text \<open>
  JavaScript strings are modelled as \<^typ>\<open>string\<close>, restricted to ASCII: \<open>toLowerCase\<close>
  folds \<open>A\<close>..\<open>Z\<close> and leaves every other character alone, and \<open>trim\<close> strips
  tab, line feed, vertical tab, form feed, carriage return and space.
\<close>

definition isWhiteSpace :: "char \<Rightarrow> bool" where
  "isWhiteSpace c =
     (c \<in> set [CHR 0x09, CHR 0x0A, CHR 0x0B, CHR 0x0C, CHR 0x0D, CHR '' ''])"

definition toLowerCase_char :: "char \<Rightarrow> char" where
  "toLowerCase_char c =
     (case map_of (zip ''ABCDEFGHIJKLMNOPQRSTUVWXYZ'' ''abcdefghijklmnopqrstuvwxyz'') c of
        Some l \<Rightarrow> l
      | None \<Rightarrow> c)"

definition toLowerCase :: "string \<Rightarrow> string" where
  "toLowerCase s = map toLowerCase_char s"

definition trim :: "string \<Rightarrow> string" where
  "trim s = rev (dropWhile isWhiteSpace (rev (dropWhile isWhiteSpace s)))"

definition startsWith :: "string \<Rightarrow> string \<Rightarrow> bool" where
  "startsWith s p = (take (length p) s = p)"

definition endsWith :: "string \<Rightarrow> string \<Rightarrow> bool" where
  "endsWith s e = (length e \<le> length s \<and> drop (length s - length e) s = e)"

section \<open>Data model (types.ts)\<close>

datatype QuestionType = MULTIPLE_CHOICE | TRUE_FALSE | SHORT_ANSWER

record Question =
  id_question :: string
  type_question :: QuestionType
  question :: string
  options :: "string list option"
  correctAnswer :: string
  explanation :: string

text \<open>
  The \<open>questions\<close> field is a parameter of the record: the quiz view reads the sequence
  itself (\<^typ>\<open>Question list\<close>), while \<open>startQuiz\<close> below works on references into a
  store of arrays.
\<close>

record 'qs Quiz =
  id_quiz :: string
  title :: string
  sourceFileName :: string
  createdAt :: nat
  questions :: 'qs
  score_quiz :: "nat option"
  totalQuestions :: nat

text \<open>\<open>Record<string, string>\<close>: own properties only; a missing key reads \<open>undefined\<close>.\<close>

type_synonym Answers = "string \<rightharpoonup> string"

record QuizAttempt =
  answers_attempt :: Answers
  isSubmitted :: bool
  score_attempt :: nat

section \<open>Scoring (QuizView.tsx)\<close>

text \<open>
  The test of \<open>finishQuiz\<close> and \<open>getScore\<close>:
  \<^verbatim>\<open>answers[q.id]?.toLowerCase().trim() === q.correctAnswer.toLowerCase().trim()\<close>.
  For a missing key the optional chain yields \<open>undefined\<close>, which is not \<open>===\<close> to any string.
\<close>

definition answerMatches :: "Answers \<Rightarrow> Question \<Rightarrow> bool" where
  "answerMatches answers q =
     (case answers (id_question q) of
        None \<Rightarrow> False
      | Some a \<Rightarrow> trim (toLowerCase a) = trim (toLowerCase (correctAnswer q)))"

text \<open>The \<open>forEach\<close> loop with its counter \<open>score\<close>.\<close>

fun score_loop :: "Answers \<Rightarrow> nat \<Rightarrow> Question list \<Rightarrow> nat" where
  "score_loop answers score [] = score"
| "score_loop answers score (q # qs) =
     score_loop answers (if answerMatches answers q then score + 1 else score) qs"

definition getScore :: "Question list Quiz \<Rightarrow> Answers \<Rightarrow> nat" where
  "getScore quiz answers = score_loop answers 0 (questions quiz)"

text \<open>
  \<^verbatim>\<open>Math.round((score / quiz.questions.length) * 100)\<close>. The arithmetic of JavaScript
  numbers (division, multiplication and \<open>Math.round\<close> on doubles, with \<open>0 / 0 = NaN\<close>) is
  not part of the repository and is a parameter of the model.
\<close>

record 'num Arith =
  num :: "nat \<Rightarrow> 'num"
  divide_num :: "'num \<Rightarrow> 'num \<Rightarrow> 'num"
  times_num :: "'num \<Rightarrow> 'num \<Rightarrow> 'num"
  Math_round :: "'num \<Rightarrow> 'num"

definition percentage :: "'num Arith \<Rightarrow> nat \<Rightarrow> nat \<Rightarrow> 'num" where
  "percentage M score len =
     Math_round M (times_num M (divide_num M (num M score) (num M len)) (num M 100))"


section \<open>The quiz view (QuizView.tsx)\<close>

datatype js_error = TypeError

text \<open>
  A pending timeout: the handle \<open>setTimeout\<close> returned, the time at which it is due, and
  the \<open>currentQuestionIndex\<close> its callback captured when it was scheduled.
\<close>

record Timer =
  handle :: nat
  due :: nat
  scheduledIndex :: nat

text \<open>
  The component's four state variables, and around them what its handlers act on: the
  clock and the browser's pending timeouts (oldest first), the attempts handed to
  \<open>onComplete\<close>, and whether the component is still mounted.
\<close>

record View =
  currentQuestionIndex :: nat
  answers :: Answers
  showFeedback :: bool
  isFinished :: bool
  now :: nat
  nextHandle :: nat
  timers :: "Timer list"
  completed :: "QuizAttempt list"
  mounted :: bool

definition initialView :: View where
  "initialView =
     \<lparr> currentQuestionIndex = 0, answers = Map.empty, showFeedback = False,
       isFinished = False, now = 0, nextHandle = 0, timers = [], completed = [],
       mounted = True \<rparr>"

text \<open>\<open>quiz.questions[currentQuestionIndex]\<close>: \<open>undefined\<close> outside the array.\<close>

definition currentQuestion :: "Question list Quiz \<Rightarrow> View \<Rightarrow> Question option" where
  "currentQuestion quiz v =
     (if currentQuestionIndex v < length (questions quiz)
      then Some (questions quiz ! currentQuestionIndex v) else None)"

definition isLastQuestion :: "Question list Quiz \<Rightarrow> View \<Rightarrow> bool" where
  "isLastQuestion quiz v = (int (currentQuestionIndex v) = int (length (questions quiz)) - 1)"

definition setTimeout :: "nat \<Rightarrow> nat \<Rightarrow> View \<Rightarrow> Timer \<times> View" where
  "setTimeout captured delay v =
     (let t = \<lparr> handle = nextHandle v, due = now v + delay, scheduledIndex = captured \<rparr>
      in (t, v\<lparr> nextHandle := Suc (nextHandle v), timers := timers v @ [t] \<rparr>))"

definition clearTimeout :: "Timer \<Rightarrow> View \<Rightarrow> View" where
  "clearTimeout t v = v\<lparr> timers := filter (\<lambda>u. handle u \<noteq> handle t) (timers v) \<rparr>"

text \<open>
  \<open>handleAnswer\<close> returns \<open>undefined\<close>, or, when it scheduled a timeout, the function
  \<^verbatim>\<open>() => clearTimeout(timer)\<close>, given here by the timer it would clear. Reading
  \<open>currentQuestion.id\<close> of an undefined question throws.
\<close>

definition handleAnswer ::
  "Question list Quiz \<Rightarrow> string \<Rightarrow> View \<Rightarrow> js_error + (Timer option \<times> View)" where
  "handleAnswer quiz answer v =
     (if showFeedback v \<or> isFinished v then Inr (None, v)
      else case currentQuestion quiz v of
        None \<Rightarrow> Inl TypeError
      | Some q \<Rightarrow>
          let v1 = v\<lparr> answers := (answers v)(id_question q \<mapsto> answer) \<rparr> in
          if (type_question q = MULTIPLE_CHOICE \<or> type_question q = TRUE_FALSE)
             \<and> \<not> isLastQuestion quiz v
          then (let (timer, v2) = setTimeout (currentQuestionIndex v) 700 v1
                in Inr (Some timer, v2))
          else Inr (None, v1))"

text \<open>
  The callback of the timeout: both state setters, which do nothing once the component is
  unmounted.
\<close>

definition timerCallback :: "Timer \<Rightarrow> View \<Rightarrow> View" where
  "timerCallback t v =
     (if mounted v
      then v\<lparr> currentQuestionIndex :=
                (if currentQuestionIndex v = scheduledIndex t
                 then currentQuestionIndex v + 1 else currentQuestionIndex v),
              showFeedback := False \<rparr>
      else v)"

definition finishQuiz :: "Question list Quiz \<Rightarrow> View \<Rightarrow> View" where
  "finishQuiz quiz v =
     v\<lparr> isFinished := True,
        completed := completed v @
          [\<lparr> answers_attempt = answers v, isSubmitted = True,
             score_attempt = score_loop (answers v) 0 (questions quiz) \<rparr>] \<rparr>"

definition handleNext :: "Question list Quiz \<Rightarrow> View \<Rightarrow> View" where
  "handleNext quiz v =
     (if isLastQuestion quiz v then finishQuiz quiz v
      else v\<lparr> currentQuestionIndex := currentQuestionIndex v + 1, showFeedback := False \<rparr>)"

definition handlePrevious :: "View \<Rightarrow> View" where
  "handlePrevious v =
     (if currentQuestionIndex v > 0
      then v\<lparr> currentQuestionIndex := currentQuestionIndex v - 1, showFeedback := False \<rparr>
      else v)"

text \<open>
  Modelled from the spec: the \<open>Button\<close> component (components/Button.tsx is not among the
  sources) passes \<open>disabled\<close> and \<open>onClick\<close> on to the button element, so that a click on a
  disabled button is a no-op.
\<close>

definition Button_click :: "bool \<Rightarrow> (View \<Rightarrow> View) \<Rightarrow> View \<Rightarrow> View" where
  "Button_click disabled onClick v = (if disabled then v else onClick v)"

text \<open>\<^verbatim>\<open>!answers[currentQuestion.id]\<close>: true for \<open>undefined\<close> and for the empty string.\<close>

definition nextDisabled :: "View \<Rightarrow> Question \<Rightarrow> bool" where
  "nextDisabled v q = (case answers v (id_question q) of None \<Rightarrow> True | Some a \<Rightarrow> a = [])"

text \<open>
  The click on the Next/Finish button, which is rendered with
  \<^verbatim>\<open>disabled={!answers[currentQuestion.id]}\<close>; rendering an undefined question throws.
\<close>

definition goNext :: "Question list Quiz \<Rightarrow> View \<Rightarrow> js_error + View" where
  "goNext quiz v =
     (case currentQuestion quiz v of
        None \<Rightarrow> Inl TypeError
      | Some q \<Rightarrow> Inr (Button_click (nextDisabled v q) (handleNext quiz) v))"

definition goPrevious :: "View \<Rightarrow> View" where
  "goPrevious v = Button_click (currentQuestionIndex v = 0) handlePrevious v"

text \<open>\<open>onExit\<close>: the application returns to the dashboard and unmounts the view.\<close>

definition onExit :: "View \<Rightarrow> View" where
  "onExit v = v\<lparr> mounted := False \<rparr>"

text \<open>
  Time passes: every timeout that has become due runs its callback, oldest first. Nothing
  else ever takes a timeout off the list.
\<close>

definition elapse :: "nat \<Rightarrow> View \<Rightarrow> View" where
  "elapse d v =
     (let t1 = now v + d;
          dueNow = filter (\<lambda>t. due t \<le> t1) (timers v);
          later = filter (\<lambda>t. \<not> due t \<le> t1) (timers v)
      in foldl (\<lambda>s t. timerCallback t s) (v\<lparr> now := t1, timers := later \<rparr>) dueNow)"

text \<open>The answer controls rendered for a question: option buttons, or the text input.\<close>

definition optionButtons :: "Question \<Rightarrow> string list" where
  "optionButtons q =
     (case type_question q of
        MULTIPLE_CHOICE \<Rightarrow> (case options q of None \<Rightarrow> [] | Some os \<Rightarrow> os)
      | TRUE_FALSE \<Rightarrow> [''True'', ''False'']
      | SHORT_ANSWER \<Rightarrow> [])"

datatype event =
  ClickOption string | ChangeInput string | ClickNext | ClickPrevious | ClickHome | Elapse nat

text \<open>
  One event on the rendered component. The event handlers drop what \<open>handleAnswer\<close>
  returns. The results screen offers only the way back to the dashboard.
\<close>

definition dropResult :: "js_error + (Timer option \<times> View) \<Rightarrow> js_error + View" where
  "dropResult r = (case r of Inl e \<Rightarrow> Inl e | Inr (_, v) \<Rightarrow> Inr v)"

fun onEvent :: "Question list Quiz \<Rightarrow> View \<Rightarrow> Question \<Rightarrow> event \<Rightarrow> js_error + View" where
  "onEvent quiz v q (ClickOption opt) =
     (if opt \<in> set (optionButtons q) then dropResult (handleAnswer quiz opt v) else Inr v)"
| "onEvent quiz v q (ChangeInput text) =
     (if type_question q = SHORT_ANSWER then dropResult (handleAnswer quiz text v) else Inr v)"
| "onEvent quiz v q ClickNext = goNext quiz v"
| "onEvent quiz v q ClickPrevious = Inr (goPrevious v)"
| "onEvent quiz v q ClickHome = Inr (onExit v)"
| "onEvent quiz v q (Elapse d) = Inr (elapse d v)"

definition userEvent :: "Question list Quiz \<Rightarrow> View \<Rightarrow> event \<Rightarrow> js_error + View" where
  "userEvent quiz v ev =
     (if \<not> mounted v then Inr v
      else if isFinished v then (if ev = ClickHome then Inr (onExit v) else Inr v)
      else (case currentQuestion quiz v of
              None \<Rightarrow> Inl TypeError
            | Some q \<Rightarrow> onEvent quiz v q ev))"

fun step :: "Question list Quiz \<Rightarrow> View \<Rightarrow> event \<Rightarrow> js_error + View" where
  "step quiz v (Elapse d) = Inr (elapse d v)"
| "step quiz v ev = userEvent quiz v ev"

fun run :: "Question list Quiz \<Rightarrow> View \<Rightarrow> event list \<Rightarrow> js_error + View" where
  "run quiz v [] = Inr v"
| "run quiz v (ev # evs) =
     (case step quiz v ev of Inl e \<Rightarrow> Inl e | Inr v1 \<Rightarrow> run quiz v1 evs)"

subsection \<open>The results screen\<close>

record ReviewEntry =
  userAnswer :: string
  isCorrect :: bool
  shownCorrectAnswer :: string
  shownExplanation :: "string option"

text \<open>
  \<^verbatim>\<open>answers[q.id] || "No answer"\<close> takes the sentinel for \<open>undefined\<close> and for the empty
  string; \<open>isCorrect\<close> is computed from the string so obtained.
\<close>

definition reviewQuestion :: "Answers \<Rightarrow> Question \<Rightarrow> ReviewEntry" where
  "reviewQuestion ans q =
     (let userAnswer =
            (case ans (id_question q) of
               None \<Rightarrow> ''No answer''
             | Some a \<Rightarrow> if a = [] then ''No answer'' else a);
          isCorrect = (trim (toLowerCase userAnswer) = trim (toLowerCase (correctAnswer q)))
      in \<lparr> userAnswer = userAnswer, isCorrect = isCorrect,
           shownCorrectAnswer = correctAnswer q,
           shownExplanation = (if \<not> isCorrect then Some (explanation q) else None) \<rparr>)"

record 'num Results =
  shownScore :: nat
  shownPercentage :: 'num
  shownTotal :: nat
  reviewEntries :: "ReviewEntry list"

definition resultsScreen :: "'num Arith \<Rightarrow> Question list Quiz \<Rightarrow> View \<Rightarrow> 'num Results" where
  "resultsScreen M quiz v =
     (let score = getScore quiz (answers v)
      in \<lparr> shownScore = score,
           shownPercentage = percentage M score (length (questions quiz)),
           shownTotal = length (questions quiz),
           reviewEntries = map (reviewQuestion (answers v)) (questions quiz) \<rparr>)"

section \<open>Starting a quiz (App.tsx)\<close>

text \<open>
  \<open>startQuiz\<close> copies an array and then swaps elements of the copy in place, so arrays
  live in a store and a quiz holds the address of its \<open>questions\<close> array. \<open>next_free\<close> is
  the first address not yet handed out.
\<close>

type_synonym addr = nat

record 'a Store =
  cells :: "addr \<Rightarrow> 'a list"
  next_free :: addr

text \<open>\<^verbatim>\<open>[...xs]\<close>: a new array with the elements of \<open>xs\<close>.\<close>

definition spread :: "'a list \<Rightarrow> 'a Store \<Rightarrow> addr \<times> 'a Store" where
  "spread xs h =
     (next_free h, h\<lparr> cells := (cells h)(next_free h := xs), next_free := Suc (next_free h) \<rparr>)"

text \<open>
  \<^verbatim>\<open>[a[i], a[j]] = [a[j], a[i]]\<close>: both elements are read, then \<open>a[i]\<close> and \<open>a[j]\<close> are
  written in this order. The loop below only calls it with \<open>j \<le> i < a.length\<close>.
\<close>

definition swap :: "addr \<Rightarrow> nat \<Rightarrow> nat \<Rightarrow> 'a Store \<Rightarrow> 'a Store" where
  "swap a i j h =
     (let xs = cells h a; x = xs ! j; y = xs ! i
      in h\<lparr> cells := (cells h)(a := (xs[i := x])[j := y]) \<rparr>)"

text \<open>
  The loop \<^verbatim>\<open>for (let i = a.length - 1; i > 0; i--)\<close>, entered at \<open>i\<close>. \<open>random k\<close> is
  what the \<open>k\<close>-th call of \<open>Math.random()\<close> returns, a number in \<open>[0, 1)\<close>; the product
  and \<open>Math.floor\<close> are taken exactly.
\<close>

fun shuffle_loop :: "(nat \<Rightarrow> real) \<Rightarrow> nat \<Rightarrow> addr \<Rightarrow> nat \<Rightarrow> 'a Store \<Rightarrow> 'a Store" where
  "shuffle_loop random k a 0 h = h"
| "shuffle_loop random k a (Suc i) h =
     (let j = nat \<lfloor>random k * real (Suc i + 1)\<rfloor>
      in shuffle_loop random (Suc k) a i (swap a (Suc i) j h))"

datatype AppState = DASHBOARD | GENERATING | TAKING_QUIZ | REVIEW

record App =
  appState :: AppState
  quizzes :: "addr Quiz list"
  currentQuiz :: "addr Quiz option"
  previewQuiz :: "addr Quiz option"
  heap :: "Question Store"

text \<open>
  \<^verbatim>\<open>{ ...quiz }\<close> copies the fields of the quiz, the reference to its questions among them;
  with \<open>randomize\<close> the copy gets the shuffled array instead. For an empty array
  \<open>length - 1\<close> is \<open>-1\<close> and the loop is not entered, as with the truncated difference.
\<close>

definition startQuiz :: "(nat \<Rightarrow> real) \<Rightarrow> addr Quiz \<Rightarrow> bool \<Rightarrow> App \<Rightarrow> App" where
  "startQuiz random quiz randomize app =
     (let (quizToStart, h) =
            (if randomize then
               (let (shuffledQuestions, h1) = spread (cells (heap app) (questions quiz)) (heap app);
                    h2 = shuffle_loop random 0 shuffledQuestions
                           (length (cells h1 shuffledQuestions) - 1) h1
                in (quiz\<lparr> questions := shuffledQuestions \<rparr>, h2))
             else (quiz, heap app))
      in app\<lparr> currentQuiz := Some quizToStart, previewQuiz := None,
              appState := TAKING_QUIZ, heap := h \<rparr>)"

text \<open>The quiz as the view receives it: the reference followed into the store.\<close>

definition load :: "Question Store \<Rightarrow> addr Quiz \<Rightarrow> Question list Quiz" where
  "load h quiz =
     \<lparr> id_quiz = id_quiz quiz, title = title quiz, sourceFileName = sourceFileName quiz,
       createdAt = createdAt quiz, questions = cells h (questions quiz),
       score_quiz = score_quiz quiz, totalQuestions = totalQuestions quiz \<rparr>"

text \<open>
  The pass as the specification words it: for \<open>i\<close> from the last index down to 1, take
  \<open>j\<close> in \<open>[0, i]\<close> and swap the elements at \<open>i\<close> and \<open>j\<close>. \<open>js\<close> lists the choices,
  the one for the last index first.
\<close>

fun fisher_yates :: "nat list \<Rightarrow> nat \<Rightarrow> 'a list \<Rightarrow> 'a list" where
  "fisher_yates (j # js) (Suc i) xs =
     fisher_yates js i (xs[Suc i := xs ! j, j := xs ! Suc i])"
| "fisher_yates js i xs = xs"

text \<open>The choices the loop makes from the random numbers, and what it means for a
  list of choices to stay within \<open>[0, i]\<close> at each index \<open>i\<close>.\<close>

fun draws :: "(nat \<Rightarrow> real) \<Rightarrow> nat \<Rightarrow> nat \<Rightarrow> nat list" where
  "draws random k 0 = []"
| "draws random k (Suc i) = nat \<lfloor>random k * real (Suc i + 1)\<rfloor> # draws random (Suc k) i"

fun in_range :: "nat list \<Rightarrow> nat \<Rightarrow> bool" where
  "in_range [] i = True"
| "in_range (j # js) i = (j \<le> i \<and> in_range js (i - 1))"

section \<open>File parsing (services/fileParser.ts)\<close>

text \<open>
  A file: its name, its declared media type, and what each way of reading it delivers
  (\<open>None\<close> when the read fails).
\<close>

record File =
  name :: string
  type_file :: string
  arrayBuffer :: "string option"
  binaryString :: "string option"
  dataURL :: "string option"

datatype Read = ArrayBuffer | ReadAsBinaryString | ReadAsDataURL

text \<open>
  The errors the parsers throw, one constructor for each message:
  \<^item> \<open>Unsupported_file_type\<close>: "Unsupported file type. Please upload a PDF, Excel, or Image file."
  \<^item> \<open>Failed_to_process_image\<close>: "Failed to process image file."
  \<^item> \<open>Failed_to_read_file\<close>: "Failed to read file."
  \<^item> \<open>PDF_appears_empty\<close>: "PDF appears to be empty or contains only images. Try taking
    a screenshot or converting to image for OCR."
  \<^item> \<open>Failed_to_read_PDF\<close>: "Failed to read PDF file. It might be corrupted or password
    protected."
  \<^item> \<open>Excel_appears_empty\<close>: "Excel file appears to be empty."
  \<^item> \<open>Failed_to_parse_Excel\<close>: "Failed to parse Excel file."
\<close>

datatype Error =
  Unsupported_file_type | Failed_to_process_image | Failed_to_read_file
  | PDF_appears_empty | Failed_to_read_PDF | Excel_appears_empty | Failed_to_parse_Excel

text \<open>The kinds of error of the specification, and the kind each message announces.\<close>

datatype ErrorKind = UnsupportedTypeError | CorruptFileError | EmptyContentError | IOError

fun kind :: "Error \<Rightarrow> ErrorKind" where
  "kind Unsupported_file_type = UnsupportedTypeError"
| "kind Failed_to_process_image = CorruptFileError"
| "kind Failed_to_read_file = IOError"
| "kind PDF_appears_empty = EmptyContentError"
| "kind Failed_to_read_PDF = CorruptFileError"
| "kind Excel_appears_empty = EmptyContentError"
| "kind Failed_to_parse_Excel = CorruptFileError"

datatype ParsedContent =
  text_content (content_of: string)
  | image_content (data_of: "string option") (mimeType_of: string)

subsection \<open>Text helpers\<close>

fun join :: "string \<Rightarrow> string list \<Rightarrow> string" where
  "join sep [] = []"
| "join sep [x] = x"
| "join sep (x # y # zs) = x @ sep @ join sep (y # zs)"

definition digit :: "nat \<Rightarrow> char" where
  "digit n = ''0123456789'' ! n"

fun toString_nat :: "nat \<Rightarrow> string" where
  "toString_nat n = (if n < 10 then [digit n] else toString_nat (n div 10) @ [digit (n mod 10)])"

declare toString_nat.simps [simp del]

text \<open>\<open>s.split(',')\<close>: the pieces between the commas, at least one.\<close>

fun split_comma :: "string \<Rightarrow> string list" where
  "split_comma [] = [[]]"
| "split_comma (c # cs) =
     (if c = CHR '','' then [] # split_comma cs
      else (case split_comma cs of [] \<Rightarrow> [[c]] | p # ps \<Rightarrow> (c # p) # ps))"

text \<open>
  \<^verbatim>\<open>metadata.match(/:(.*?);/)?.[1]\<close>: the text between the first colon and the next
  semicolon that no line terminator separates from it.
\<close>

fun upto_semicolon :: "string \<Rightarrow> string option" where
  "upto_semicolon [] = None"
| "upto_semicolon (c # cs) =
     (if c = CHR '';'' then Some []
      else if c = CHR 0x0A \<or> c = CHR 0x0D then None
      else map_option ((#) c) (upto_semicolon cs))"

fun match_mime :: "string \<Rightarrow> string option" where
  "match_mime [] = None"
| "match_mime (c # cs) =
     (if c = CHR '':'' then (case upto_semicolon cs of Some g \<Rightarrow> Some g | None \<Rightarrow> match_mime cs)
      else match_mime cs)"

subsection \<open>Images\<close>

text \<open>
  \<open>reader.result\<close> of a completed read is a string, so the \<open>catch\<close> around the body
  (message \<open>Failed_to_process_image\<close>) is not entered. A result without a comma leaves
  \<open>data\<close> undefined. \<open>||\<close> falls back to \<open>file.type\<close> for no match and for an empty one.
\<close>

definition parseImage :: "File \<Rightarrow> Read list \<times> (Error + ParsedContent)" where
  "parseImage file =
     ([ReadAsDataURL],
      case dataURL file of
        None \<Rightarrow> Inl Failed_to_read_file
      | Some result \<Rightarrow>
          (let parts = split_comma result;
               metadata = hd parts;
               data = (if 1 < length parts then Some (parts ! 1) else None);
               mimeType = (case match_mime metadata of
                             None \<Rightarrow> type_file file
                           | Some m \<Rightarrow> if m = [] then type_file file else m)
           in Inr (image_content data mimeType)))"

subsection \<open>PDF\<close>

text \<open>
  What pdf.js delivers: \<open>getDocument\<close> fails (\<open>None\<close>) or yields a document with its number
  of pages; \<open>getPage x\<close> is the list of the \<open>str\<close> of the text items of page
  \<open>x\<close>, or \<open>None\<close> when \<open>getPage\<close> or \<open>getTextContent\<close> fails. The library is a
  parameter of the parser.
\<close>

record PDFDocument =
  numPages :: nat
  getPage :: "nat \<Rightarrow> string list option"

text \<open>What leaves the \<open>try\<close> block: an error thrown by the block itself, or a failure
  inside the library.\<close>

datatype Thrown = Thrown Error | LibraryFailure

text \<open>The loop \<^verbatim>\<open>for (let i = 1; i <= pdf.numPages; i++)\<close>, entered at \<open>i\<close>.\<close>

function pages_loop :: "PDFDocument \<Rightarrow> nat \<Rightarrow> string \<Rightarrow> Thrown + string" where
  "pages_loop pdf i fullText =
     (if i \<le> numPages pdf then
        (case getPage pdf i of
           None \<Rightarrow> Inl LibraryFailure
         | Some items \<Rightarrow>
             pages_loop pdf (i + 1)
               (fullText @ ''--- Page '' @ toString_nat i @ '' ---'' @ [CHR 0x0A]
                  @ join '' '' items @ [CHR 0x0A, CHR 0x0A]))
      else Inr fullText)"
  by pat_completeness auto
termination
  by (relation "measure (\<lambda>(pdf, i, fullText). Suc (numPages pdf) - i)") auto

declare pages_loop.simps [simp del]

definition parsePdf_try :: "(string \<Rightarrow> PDFDocument option) \<Rightarrow> File \<Rightarrow> Thrown + string" where
  "parsePdf_try getDocument file =
     (case arrayBuffer file of
        None \<Rightarrow> Inl LibraryFailure
      | Some buffer \<Rightarrow>
          (case getDocument buffer of
             None \<Rightarrow> Inl LibraryFailure
           | Some pdf \<Rightarrow>
               (case pages_loop pdf 1 [] of
                  Inl e \<Rightarrow> Inl e
                | Inr fullText \<Rightarrow>
                    if length (trim fullText) = 0 then Inl (Thrown PDF_appears_empty)
                    else Inr fullText)))"

text \<open>The \<open>catch\<close> clause replaces whatever was thrown in the block.\<close>

definition parsePdf ::
  "(string \<Rightarrow> PDFDocument option) \<Rightarrow> File \<Rightarrow> Read list \<times> (Error + string)" where
  "parsePdf getDocument file =
     ([ArrayBuffer],
      case parsePdf_try getDocument file of
        Inl error \<Rightarrow> Inl Failed_to_read_PDF
      | Inr fullText \<Rightarrow> Inr fullText)"

subsection \<open>Spreadsheets\<close>

text \<open>
  What SheetJS delivers: \<open>XLSX.read\<close> fails or yields a workbook, and
  \<open>XLSX.utils.sheet_to_csv\<close> fails or yields the text of a sheet (it is also called on
  \<open>undefined\<close>, when the workbook has no sheet of the name). Both are parameters.
\<close>

record 'sheet WorkBook =
  SheetNames :: "string list"
  Sheets :: "string \<rightharpoonup> 'sheet"

text \<open>\<open>workbook.SheetNames[0]\<close>, and its text as a property key and in the template.\<close>

definition firstSheetName :: "'sheet WorkBook \<Rightarrow> string option" where
  "firstSheetName workbook = (case SheetNames workbook of [] \<Rightarrow> None | n # _ \<Rightarrow> Some n)"

definition toString_name :: "string option \<Rightarrow> string" where
  "toString_name n = (case n of None \<Rightarrow> ''undefined'' | Some s \<Rightarrow> s)"

definition parseExcel ::
  "(string \<Rightarrow> 'sheet WorkBook option) \<Rightarrow> ('sheet option \<Rightarrow> string option) \<Rightarrow> File
     \<Rightarrow> Read list \<times> (Error + string)" where
  "parseExcel XLSX_read sheet_to_csv file =
     ([ReadAsBinaryString],
      case binaryString file of
        None \<Rightarrow> Inl Failed_to_read_file
      | Some data \<Rightarrow>
          (case XLSX_read data of
             None \<Rightarrow> Inl Failed_to_parse_Excel
           | Some workbook \<Rightarrow>
               (let sheetName = firstSheetName workbook;
                    sheet = Sheets workbook (toString_name sheetName)
                in case sheet_to_csv sheet of
                     None \<Rightarrow> Inl Failed_to_parse_Excel
                   | Some csv \<Rightarrow>
                       if csv = [] \<or> length (trim csv) = 0 then Inl Excel_appears_empty
                       else Inr (''--- Excel Sheet: '' @ toString_name sheetName @ '' ---''
                                   @ [CHR 0x0A] @ csv))))"

subsection \<open>Dispatch\<close>

definition parseFile ::
  "(string \<Rightarrow> PDFDocument option) \<Rightarrow> (string \<Rightarrow> 'sheet WorkBook option)
     \<Rightarrow> ('sheet option \<Rightarrow> string option) \<Rightarrow> File \<Rightarrow> Read list \<times> (Error + ParsedContent)" where
  "parseFile getDocument XLSX_read sheet_to_csv file =
     (let fileType = type_file file in
      if fileType = ''application/pdf'' then
        (let (reads, r) = parsePdf getDocument file in (reads, map_sum id text_content r))
      else if fileType = ''application/vnd.openxmlformats-officedocument.spreadsheetml.sheet''
           \<or> fileType = ''application/vnd.ms-excel''
           \<or> endsWith (name file) ''.xlsx''
           \<or> endsWith (name file) ''.xls'' then
        (let (reads, r) = parseExcel XLSX_read sheet_to_csv file
         in (reads, map_sum id text_content r))
      else if startsWith fileType ''image/'' then parseImage file
      else ([], Inl Unsupported_file_type))"

section \<open>The upload widget (components/FileUpload.tsx)\<close>

definition validTypes :: "string list" where
  "validTypes =
     [''application/pdf'',
      ''application/vnd.openxmlformats-officedocument.spreadsheetml.sheet'',
      ''application/vnd.ms-excel'',
      ''image/png'', ''image/jpeg'', ''image/webp'', ''image/heic'']"

definition validExtensions :: "string list" where
  "validExtensions =
     [''.pdf'', ''.xlsx'', ''.xls'', ''.png'', ''.jpg'', ''.jpeg'', ''.webp'', ''.heic'']"

text \<open>\<open>validateAndSelect\<close>: whether the file is handed on (\<open>onFileSelect\<close>) or refused.\<close>

definition validateAndSelect :: "File \<Rightarrow> bool" where
  "validateAndSelect file =
     (let hasValidExtension =
            list_ex (\<lambda>ext. endsWith (toLowerCase (name file)) ext) validExtensions
      in type_file file \<in> set validTypes \<or> hasValidExtension)"

section \<open>Sample data\<close>

text \<open>The quiz and the answers of the scenarios, and inputs for the other properties.\<close>

definition q_sum :: Question where
  "q_sum = \<lparr> id_question = ''q1'', type_question = MULTIPLE_CHOICE, question = ''2+2'',
      options = Some [''3'', ''4'', ''5'', ''22''], correctAnswer = ''4'',
      explanation = ''Two and two make four.'' \<rparr>"

definition q_sky :: Question where
  "q_sky = \<lparr> id_question = ''q2'', type_question = TRUE_FALSE, question = ''Sky is blue'',
      options = None, correctAnswer = ''True'', explanation = ''Rayleigh scattering.'' \<rparr>"

definition q_capital :: Question where
  "q_capital = \<lparr> id_question = ''q3'', type_question = SHORT_ANSWER,
      question = ''Capital of France'', options = None, correctAnswer = ''Paris'',
      explanation = ''Paris is the capital.'' \<rparr>"

definition sample_quiz :: "Question list Quiz" where
  "sample_quiz = \<lparr> id_quiz = ''1700000000000'', title = ''Sample'', sourceFileName = ''notes.pdf'',
      createdAt = 1700000000000, questions = [q_sum, q_sky, q_capital], score_quiz = None,
      totalQuestions = 3 \<rparr>"

definition sample_answers :: Answers where
  "sample_answers = [''q1'' \<mapsto> ''4'', ''q2'' \<mapsto> ''True'', ''q3'' \<mapsto> ''paris '']"

definition sample_last :: View where
  "sample_last = initialView\<lparr> currentQuestionIndex := 2, answers := sample_answers \<rparr>"





definition stored_quiz :: "addr Quiz" where
  "stored_quiz = \<lparr> id_quiz = ''1700000000000'', title = ''Sample'',
      sourceFileName = ''notes.pdf'', createdAt = 1700000000000, questions = 0,
      score_quiz = None, totalQuestions = 3 \<rparr>"

definition sample_app :: App where
  "sample_app = \<lparr> appState = DASHBOARD, quizzes = [stored_quiz], currentQuiz = None,
      previewQuiz = Some stored_quiz,
      heap = \<lparr> cells = (\<lambda>a. if a = 0 then [q_sum, q_sky, q_capital] else []),
               next_free = 1 \<rparr> \<rparr>"

definition halves :: "nat \<Rightarrow> real" where
  "halves k = 1 / 2"

definition scanned_file :: File where
  "scanned_file = \<lparr> name = ''scan.pdf'', type_file = ''application/pdf'',
      arrayBuffer = Some ''%PDF-1.4'', binaryString = Some ''%PDF-1.4'',
      dataURL = Some ''data:application/pdf;base64,JVBERi0xLjQ='' \<rparr>"

text \<open>A decoder that finds one page without any text item, as in a scanned document.\<close>

definition scanned_decode :: "string \<Rightarrow> PDFDocument option" where
  "scanned_decode buffer = Some \<lparr> numPages = 1, getPage = (\<lambda>i. Some []) \<rparr>"

definition pageless_decode :: "string \<Rightarrow> PDFDocument option" where
  "pageless_decode buffer = Some \<lparr> numPages = 0, getPage = (\<lambda>i. None) \<rparr>"

definition untyped_pdf :: File where
  "untyped_pdf = \<lparr> name = ''notes.pdf'', type_file = [],
      arrayBuffer = Some ''%PDF-1.4'', binaryString = Some ''%PDF-1.4'',
      dataURL = Some ''data:;base64,JVBERi0xLjQ='' \<rparr>"

definition shouting_sheet :: File where
  "shouting_sheet = \<lparr> name = ''DATA.XLSX'', type_file = [],
      arrayBuffer = Some ''PK'', binaryString = Some ''PK'',
      dataURL = Some ''data:;base64,UEs='' \<rparr>"

definition untyped_photo :: File where
  "untyped_photo = \<lparr> name = ''photo.jpg'', type_file = [],
      arrayBuffer = Some ''JFIF'', binaryString = Some ''JFIF'',
      dataURL = Some ''data:;base64,SkZJRg=='' \<rparr>"





section \<open>Properties\<close>



lemma score_loop_count:
  "score_loop ans n qs = n + length (filter (answerMatches ans) qs)"
  by (induction qs arbitrary: n) auto

lemma getScore_count: "getScore quiz ans = length (filter (answerMatches ans) (questions quiz))"
  by (simp add: getScore_def score_loop_count)








lemma currentQuestion_answers [simp]:
  "currentQuestion quiz (v\<lparr> answers := a \<rparr>) = currentQuestion quiz v"
  by (simp add: currentQuestion_def)

text \<open>
  C10. On a short-answer question, typing a text and clearing the input again leaves the
  empty string recorded for the question; its id is then a key of the answers, and yet a
  click on Next/Finish changes nothing: the index stays and the quiz is not finished.
\<close>

theorem empty_answer_blocks_goNext:
  assumes "currentQuestion quiz v = Some q" and "type_question q = SHORT_ANSWER"
    and "mounted v" and "\<not> isFinished v" and "\<not> showFeedback v"
  shows "\<exists>v1 v2. step quiz v (ChangeInput typed) = Inr v1
      \<and> step quiz v1 (ChangeInput []) = Inr v2
      \<and> answers v2 (id_question q) = Some []
      \<and> id_question q \<in> dom (answers v2)
      \<and> step quiz v2 ClickNext = Inr v2
      \<and> currentQuestionIndex v2 = currentQuestionIndex v
      \<and> \<not> isFinished v2"
proof -
  let ?v1 = "v\<lparr> answers := (answers v)(id_question q \<mapsto> typed) \<rparr>"
  let ?v2 = "?v1\<lparr> answers := (answers ?v1)(id_question q \<mapsto> []) \<rparr>"
  have s1: "step quiz v (ChangeInput typed) = Inr ?v1"
    using assms by (simp add: userEvent_def handleAnswer_def dropResult_def)
  have c1: "currentQuestion quiz ?v1 = Some q"
    using assms(1) by simp
  have s2: "step quiz ?v1 (ChangeInput []) = Inr ?v2"
    using assms c1 by (simp add: userEvent_def handleAnswer_def dropResult_def)
  have c2: "currentQuestion quiz ?v2 = Some q"
    using assms(1) by simp
  have s3: "step quiz ?v2 ClickNext = Inr ?v2"
    using assms c2
    by (simp add: userEvent_def goNext_def Button_click_def nextDisabled_def)
  show ?thesis
    using s1 s2 s3 assms(4) by (intro exI [of _ ?v1] exI [of _ ?v2]) simp
qed

text \<open>
  C10, on the last question of the sample quiz.
\<close>

theorem empty_answer_blocks_goNext_witness:
  "currentQuestion sample_quiz sample_last = Some q_capital
   \<and> type_question q_capital = SHORT_ANSWER
   \<and> mounted sample_last \<and> \<not> isFinished sample_last \<and> \<not> showFeedback sample_last
   \<and> (\<exists>v1 v2. step sample_quiz sample_last (ChangeInput ''P'') = Inr v1
      \<and> step sample_quiz v1 (ChangeInput []) = Inr v2
      \<and> answers v2 (id_question q_capital) = Some []
      \<and> id_question q_capital \<in> dom (answers v2)
      \<and> step sample_quiz v2 ClickNext = Inr v2
      \<and> currentQuestionIndex v2 = currentQuestionIndex sample_last
      \<and> \<not> isFinished v2)"
proof -
  have c: "currentQuestion sample_quiz sample_last = Some q_capital"
    by (simp add: currentQuestion_def sample_quiz_def sample_last_def initialView_def)
  have t: "type_question q_capital = SHORT_ANSWER"
    by (simp add: q_capital_def)
  have m: "mounted sample_last" and f: "\<not> isFinished sample_last"
    and s: "\<not> showFeedback sample_last"
    by (simp_all add: sample_last_def initialView_def)
  show ?thesis
    using empty_answer_blocks_goNext [OF c t m f s, of "''P''"] c t m f s by blast
qed

lemma review_agrees_when_answered:
  assumes "ans (id_question q) = Some a" and "a \<noteq> []"
  shows "isCorrect (reviewQuestion ans q) = answerMatches ans q"
  using assms by (simp add: reviewQuestion_def answerMatches_def Let_def)

lemma review_explanation:
  "shownExplanation (reviewQuestion ans q) =
     (if isCorrect (reviewQuestion ans q) then None else Some (explanation q))"
  by (simp add: reviewQuestion_def Let_def)

lemma rederived_score:
  "shownScore (resultsScreen M quiz (finishQuiz quiz v))
     = score_attempt (last (completed (finishQuiz quiz v)))"
  by (simp add: resultsScreen_def getScore_def finishQuiz_def Let_def)


lemma handleAnswer_schedules:
  assumes "currentQuestion quiz v = Some q" and "\<not> showFeedback v" and "\<not> isFinished v"
  shows "handleAnswer quiz a v =
     (if (type_question q = MULTIPLE_CHOICE \<or> type_question q = TRUE_FALSE)
         \<and> \<not> isLastQuestion quiz v
      then Inr (Some \<lparr> handle = nextHandle v, due = now v + 700,
                       scheduledIndex = currentQuestionIndex v \<rparr>,
                v\<lparr> answers := (answers v)(id_question q \<mapsto> a),
                   nextHandle := Suc (nextHandle v),
                   timers := timers v @ [\<lparr> handle = nextHandle v, due = now v + 700,
                                           scheduledIndex = currentQuestionIndex v \<rparr>] \<rparr>)
      else Inr (None, v\<lparr> answers := (answers v)(id_question q \<mapsto> a) \<rparr>))"
  using assms by (simp add: handleAnswer_def setTimeout_def Let_def)

lemma timerCallback_index:
  "currentQuestionIndex (timerCallback t v) =
     (if mounted v \<and> currentQuestionIndex v = scheduledIndex t
      then currentQuestionIndex v + 1 else currentQuestionIndex v)"
  by (simp add: timerCallback_def)

text \<open>No click and no input takes a pending timeout off the list.\<close>

lemma user_events_keep_timers:
  assumes "step quiz v ev = Inr v'" and "\<forall>d. ev \<noteq> Elapse d"
  shows "\<exists>ts. timers v' = timers v @ ts"
  using assms
  by (cases ev)
     (auto simp: userEvent_def handleAnswer_def dropResult_def setTimeout_def goNext_def
        goPrevious_def Button_click_def handleNext_def handlePrevious_def finishQuiz_def
        onExit_def Let_def
      split: if_splits option.splits)

text \<open>
  C5. The timeout scheduled by an answer is never cancelled. After answering the first
  question, going to the next question and back, the timeout is still pending, and when its
  700 units have passed it moves the view forward again; it also stays pending after the
  view is left, and after the quiz is finished.
  (\<open>handleAnswer_schedules\<close>, \<open>timerCallback_index\<close> and
  \<open>user_events_keep_timers\<close> above: when a timeout is scheduled, what its callback
  does to the index, and that no click or input removes a pending timeout.)
\<close>

theorem auto_advance_not_cancelled:
  "map_sum id (\<lambda>v. (currentQuestionIndex v, timers v))
      (run sample_quiz initialView [ClickOption ''4'', ClickNext, ClickPrevious])
     = Inr (0, [\<lparr> handle = 0, due = 700, scheduledIndex = 0 \<rparr>])
   \<and> map_sum id currentQuestionIndex
      (run sample_quiz initialView [ClickOption ''4'', ClickNext, ClickPrevious, Elapse 700])
     = Inr 1
   \<and> map_sum id (\<lambda>v. (mounted v, timers v))
      (run sample_quiz initialView [ClickOption ''4'', ClickHome])
     = Inr (False, [\<lparr> handle = 0, due = 700, scheduledIndex = 0 \<rparr>])
   \<and> map_sum id (\<lambda>v. (isFinished v, timers v))
      (run sample_quiz initialView
         [ClickOption ''4'', ClickNext, ClickOption ''True'', ClickNext,
          ChangeInput ''Paris'', ClickNext])
     = Inr (True, [\<lparr> handle = 0, due = 700, scheduledIndex = 0 \<rparr>,
                   \<lparr> handle = 1, due = 700, scheduledIndex = 1 \<rparr>])"
  by (simp add: userEvent_def handleAnswer_def dropResult_def setTimeout_def goNext_def
        goPrevious_def Button_click_def handleNext_def handlePrevious_def nextDisabled_def
        isLastQuestion_def currentQuestion_def optionButtons_def onExit_def elapse_def
        timerCallback_def finishQuiz_def sample_quiz_def q_sum_def q_sky_def q_capital_def
        initialView_def Let_def)

lemma count_filter_mset:
  assumes "mset xs = mset ys"
  shows "length (filter P xs) = length (filter P ys)"
proof -
  have "size (filter_mset P (mset xs)) = size (filter_mset P (mset ys))"
    using assms by simp
  then show ?thesis by (simp only: mset_filter [symmetric] size_mset)
qed

lemma draw_in_range:
  assumes "0 \<le> r" and "r < 1"
  shows "nat \<lfloor>r * real (Suc i)\<rfloor> \<le> i"
proof -
  have "r * real (Suc i) < real (Suc i)"
    using assms by simp
  then have "\<lfloor>r * real (Suc i)\<rfloor> < int (Suc i)"
    by (simp add: floor_less_iff)
  then show ?thesis by simp
qed

lemma in_range_draws:
  assumes "\<forall>k. 0 \<le> random k \<and> random k < 1"
  shows "in_range (draws random k i) i"
  using assms
proof (induction i arbitrary: k)
  case 0
  then show ?case by simp
next
  case (Suc i)
  have "nat \<lfloor>random k * real (Suc (Suc i))\<rfloor> \<le> Suc i"
    using Suc.prems by (intro draw_in_range) auto
  then show ?case using Suc by simp
qed

lemma length_draws [simp]: "length (draws random k i) = i"
  by (induction i arbitrary: k) auto

lemma swap_cells:
  "cells (swap a i j h) b =
     (if b = a then (cells h a)[i := cells h a ! j, j := cells h a ! i] else cells h b)"
  by (simp add: swap_def Let_def)

lemma swap_next_free [simp]: "next_free (swap a i j h) = next_free h"
  by (simp add: swap_def Let_def)

lemma shuffle_loop_next_free [simp]: "next_free (shuffle_loop random k a i h) = next_free h"
  by (induction i arbitrary: k h) (auto simp: Let_def)


lemma shuffle_loop_fisher_yates:
  "cells (shuffle_loop random k a i h) a = fisher_yates (draws random k i) i (cells h a)"
  by (induction i arbitrary: k h) (auto simp: Let_def swap_cells)

lemma length_fisher_yates [simp]: "length (fisher_yates js i xs) = length xs"
  by (induction js i xs rule: fisher_yates.induct) auto

lemma mset_fisher_yates:
  assumes "in_range js i" and "i < length xs"
  shows "mset (fisher_yates js i xs) = mset xs"
  using assms
proof (induction js i xs rule: fisher_yates.induct)
  case (1 j js i xs)
  let ?ys = "xs[Suc i := xs ! j, j := xs ! Suc i]"
  have j: "j < length xs" and si: "Suc i < length xs"
    using "1.prems" by auto
  have "mset ?ys = mset xs"
    using j si by (simp add: mset_swap)
  moreover have "mset (fisher_yates js i ?ys) = mset ?ys"
    using "1.prems" by (intro "1.IH") auto
  ultimately show ?case by simp
qed auto








lemma startQuiz_current:
  "currentQuiz (startQuiz random quiz True app)
     = Some (quiz\<lparr> questions := next_free (heap app) \<rparr>)"
  by (simp add: startQuiz_def spread_def Let_def)

lemma startQuiz_shuffled:
  "cells (heap (startQuiz random quiz True app)) (next_free (heap app))
     = fisher_yates (draws random 0 (length (cells (heap app) (questions quiz)) - 1))
         (length (cells (heap app) (questions quiz)) - 1) (cells (heap app) (questions quiz))"
  by (simp add: startQuiz_def spread_def Let_def shuffle_loop_fisher_yates)


lemma startQuiz_quizzes [simp]:
  "quizzes (startQuiz random quiz randomize app) = quizzes app"
  by (simp add: startQuiz_def Let_def split: prod.splits)

lemma mset_shuffled:
  assumes "\<forall>k. 0 \<le> random k \<and> random k < 1"
  shows "mset (fisher_yates (draws random 0 (length xs - 1)) (length xs - 1) xs) = mset xs"
proof (cases "xs = []")
  case True
  then show ?thesis by simp
next
  case False
  then show ?thesis
    using assms by (intro mset_fisher_yates in_range_draws) auto
qed


text \<open>
  C9. For fixed answers the score is the same for every permutation of the questions of a
  quiz, and so the quiz started by a randomized retake scores as the stored quiz does.
\<close>

theorem score_order_independent:
  assumes "questions quiz < next_free (heap app)"
    and "\<forall>k. 0 \<le> random k \<and> random k < 1"
  shows "(\<forall>qs. mset qs = mset (questions original) \<longrightarrow>
            getScore (original\<lparr> questions := qs \<rparr>) ans = getScore original ans)
       \<and> (\<exists>started. currentQuiz (startQuiz random quiz True app) = Some started
            \<and> getScore (load (heap (startQuiz random quiz True app)) started) ans
                = getScore (load (heap app) quiz) ans)"
proof -
  let ?app' = "startQuiz random quiz True app"
  let ?started = "quiz\<lparr> questions := next_free (heap app) \<rparr>"
  let ?xs = "cells (heap app) (questions quiz)"
  have a: "\<forall>qs. mset qs = mset (questions original) \<longrightarrow>
            getScore (original\<lparr> questions := qs \<rparr>) ans = getScore original ans"
  proof (intro allI impI)
    fix qs assume "mset qs = mset (questions original)"
    then have "length (filter (answerMatches ans) qs)
                = length (filter (answerMatches ans) (questions original))"
      by (rule count_filter_mset)
    then show "getScore (original\<lparr> questions := qs \<rparr>) ans = getScore original ans"
      by (simp add: getScore_count)
  qed
  have q: "questions ?started = next_free (heap app)" by simp
  have "mset (cells (heap ?app') (questions ?started)) = mset ?xs"
    unfolding q startQuiz_shuffled by (rule mset_shuffled [OF assms(2)])
  then have "length (filter (answerMatches ans) (cells (heap ?app') (questions ?started)))
                = length (filter (answerMatches ans) ?xs)"
    by (rule count_filter_mset)
  then have "getScore (load (heap ?app') ?started) ans = getScore (load (heap app) quiz) ans"
    by (simp add: getScore_count load_def)
  then show ?thesis using a startQuiz_current by blast
qed

lemma sample_shuffle_value:
  "cells (heap (startQuiz halves stored_quiz True sample_app)) 1 = [q_sum, q_capital, q_sky]"
  by (simp add: startQuiz_def spread_def swap_def Let_def halves_def stored_quiz_def
        sample_app_def numeral_2_eq_2)


text \<open>
  C9, on the stored sample quiz with the sample answers.
\<close>

theorem score_order_independent_witness:
  "questions stored_quiz < next_free (heap sample_app)
   \<and> (\<forall>k. 0 \<le> halves k \<and> halves k < 1)
   \<and> (\<exists>started. currentQuiz (startQuiz halves stored_quiz True sample_app) = Some started
        \<and> getScore (load (heap (startQuiz halves stored_quiz True sample_app)) started)
              sample_answers
            = getScore (load (heap sample_app) stored_quiz) sample_answers)"
proof -
  have h1: "questions stored_quiz < next_free (heap sample_app)"
    by (simp add: stored_quiz_def sample_app_def)
  have h2: "\<forall>k. 0 \<le> halves k \<and> halves k < 1"
    by (simp add: halves_def)
  show ?thesis
    using score_order_independent [OF h1 h2, where ans = sample_answers] h1 h2
    by blast
qed

lemma trim_Nil [simp]: "trim [] = []"
  by (simp add: trim_def)

lemma parsePdf_errors:
  "snd (parsePdf getDocument file) = Inl e \<Longrightarrow> e = Failed_to_read_PDF"
  by (auto simp: parsePdf_def split: sum.splits)

lemma parsePdf_pageless:
  assumes "arrayBuffer file = Some buffer" and "getDocument buffer = Some pdf"
    and "numPages pdf = 0"
  shows "snd (parsePdf getDocument file) = Inl Failed_to_read_PDF"
  using assms by (simp add: parsePdf_def parsePdf_try_def pages_loop.simps)

lemma trim_Nil_iff: "trim s = [] \<longleftrightarrow> (\<forall>c \<in> set s. isWhiteSpace c)"
proof -
  have "(\<forall>c \<in> set (dropWhile isWhiteSpace s). isWhiteSpace c) \<longleftrightarrow> (\<forall>c \<in> set s. isWhiteSpace c)"
  proof
    assume a: "\<forall>c \<in> set (dropWhile isWhiteSpace s). isWhiteSpace c"
    have "dropWhile isWhiteSpace s = []"
    proof (rule ccontr)
      assume n: "dropWhile isWhiteSpace s \<noteq> []"
      then have "\<not> isWhiteSpace (hd (dropWhile isWhiteSpace s))"
        by (rule hd_dropWhile)
      moreover have "hd (dropWhile isWhiteSpace s) \<in> set (dropWhile isWhiteSpace s)"
        using n by simp
      ultimately show False using a by blast
    qed
    then show "\<forall>c \<in> set s. isWhiteSpace c"
      by simp
  next
    assume "\<forall>c \<in> set s. isWhiteSpace c"
    then show "\<forall>c \<in> set (dropWhile isWhiteSpace s). isWhiteSpace c"
      by (meson set_dropWhileD)
  qed
  then show ?thesis
    by (simp add: trim_def)
qed

lemma pages_loop_keeps:
  assumes "pages_loop pdf i fullText = Inr t"
  shows "set fullText \<subseteq> set t"
  using assms
proof (induction pdf i fullText rule: pages_loop.induct)
  case (1 pdf i fullText)
  show ?case
  proof (cases "i \<le> numPages pdf")
    case True
    then obtain items where g: "getPage pdf i = Some items"
      using "1.prems" by (cases "getPage pdf i") (auto simp: pages_loop.simps [of pdf i])
    let ?next = "fullText @ ''--- Page '' @ toString_nat i @ '' ---'' @ [CHR 0x0A]
                  @ join '' '' items @ [CHR 0x0A, CHR 0x0A]"
    have "pages_loop pdf (i + 1) ?next = Inr t"
      using "1.prems" True g by (simp add: pages_loop.simps [of pdf i])
    then have "set ?next \<subseteq> set t"
      using True g by (intro "1.IH") auto
    then show ?thesis by auto
  next
    case False
    then show ?thesis using "1.prems" by (simp add: pages_loop.simps [of pdf i])
  qed
qed

lemma pages_loop_marker:
  assumes "pages_loop pdf i fullText = Inr t" and "i \<le> numPages pdf"
  shows "CHR ''-'' \<in> set t"
proof -
  obtain items where g: "getPage pdf i = Some items"
    using assms by (cases "getPage pdf i") (auto simp: pages_loop.simps [of pdf i])
  let ?next = "fullText @ ''--- Page '' @ toString_nat i @ '' ---'' @ [CHR 0x0A]
                  @ join '' '' items @ [CHR 0x0A, CHR 0x0A]"
  have "pages_loop pdf (i + 1) ?next = Inr t"
    using assms g by (simp add: pages_loop.simps [of pdf i])
  then have "set ?next \<subseteq> set t"
    by (rule pages_loop_keeps)
  then show ?thesis by auto
qed

lemma pages_loop_readable:
  assumes "\<forall>k. i \<le> k \<and> k \<le> numPages pdf \<longrightarrow> getPage pdf k \<noteq> None"
  shows "\<exists>t. pages_loop pdf i fullText = Inr t"
  using assms
proof (induction pdf i fullText rule: pages_loop.induct)
  case (1 pdf i fullText)
  show ?case
  proof (cases "i \<le> numPages pdf")
    case True
    then obtain items where g: "getPage pdf i = Some items"
      using "1.prems" by (cases "getPage pdf i") auto
    have "\<exists>t. pages_loop pdf (i + 1)
                 (fullText @ ''--- Page '' @ toString_nat i @ '' ---'' @ [CHR 0x0A]
                    @ join '' '' items @ [CHR 0x0A, CHR 0x0A]) = Inr t"
      using True g "1.prems" by (intro "1.IH") auto
    then show ?thesis
      using True g by (simp add: pages_loop.simps [of pdf i])
  next
    case False
    then show ?thesis by (simp add: pages_loop.simps [of pdf i])
  qed
qed

text \<open>
  A document with at least one page, all of whose pages can be read, is extracted
  successfully whatever text its pages hold, even none.
\<close>

lemma parsePdf_pages_succeed:
  assumes "arrayBuffer file = Some buffer" and "getDocument buffer = Some pdf"
    and "1 \<le> numPages pdf"
    and "\<forall>k. 1 \<le> k \<and> k \<le> numPages pdf \<longrightarrow> getPage pdf k \<noteq> None"
  shows "\<exists>t. parsePdf getDocument file = ([ArrayBuffer], Inr t)"
proof -
  obtain t where t: "pages_loop pdf 1 [] = Inr t"
    using pages_loop_readable [OF assms(4)] by blast
  have "CHR ''-'' \<in> set t"
    using t assms(3) by (rule pages_loop_marker)
  moreover have "\<not> isWhiteSpace CHR ''-''"
    by (simp add: isWhiteSpace_def)
  ultimately have "trim t \<noteq> []"
    by (auto simp: trim_Nil_iff)
  then show ?thesis
    using assms(1,2) t by (simp add: parsePdf_def parsePdf_try_def)
qed

text \<open>
  C3. A PDF that decodes to one page without text is not reported as empty: the page marker
  alone makes the text non-empty and extraction succeeds. A document without pages does
  reach the emptiness test, but the error thrown there is caught by the enclosing
  \<open>catch\<close> and replaced by the message for corrupt files.
  (\<open>parsePdf_pages_succeed\<close> and \<open>parsePdf_errors\<close> above: the same for every
  document with readable pages, and the only error \<open>parsePdf\<close> ever reports.)
\<close>

theorem scanned_pdf_not_reported_empty:
  "snd (parsePdf scanned_decode scanned_file)
     = Inr (''--- Page 1 ---'' @ [CHR 0x0A, CHR 0x0A, CHR 0x0A])
   \<and> snd (parsePdf pageless_decode scanned_file) = Inl Failed_to_read_PDF
   \<and> kind Failed_to_read_PDF = CorruptFileError"
  by (simp add: parsePdf_def parsePdf_try_def pages_loop.simps toString_nat.simps digit_def
        scanned_decode_def pageless_decode_def scanned_file_def trim_def isWhiteSpace_def)

lemma parseFile_unsupported_reads_nothing:
  assumes "snd (parseFile getDocument XLSX_read sheet_to_csv file) = Inl Unsupported_file_type"
  shows "fst (parseFile getDocument XLSX_read sheet_to_csv file) = []"
  using assms
  by (auto simp: parseFile_def parsePdf_def parseExcel_def parseImage_def Let_def
      split: if_splits sum.splits option.splits)

lemma endsWith_toLowerCase:
  assumes "endsWith s e"
  shows "endsWith (toLowerCase s) (toLowerCase e)"
proof -
  have "drop (length s - length e) (map toLowerCase_char s)
          = map toLowerCase_char (drop (length s - length e) s)"
    by (simp add: drop_map)
  then show ?thesis
    using assms by (simp add: endsWith_def toLowerCase_def)
qed

text \<open>
  What \<open>parseFile\<close> does reject: a file whose media type is none of those it tests for
  and whose name, lower-cased, has no extension of the allow-list.
\<close>

lemma parseFile_rejects_unknown:
  assumes "type_file file \<noteq> ''application/pdf''"
    and "type_file file \<noteq> ''application/vnd.openxmlformats-officedocument.spreadsheetml.sheet''"
    and "type_file file \<noteq> ''application/vnd.ms-excel''"
    and "\<not> startsWith (type_file file) ''image/''"
    and "\<not> list_ex (\<lambda>ext. endsWith (toLowerCase (name file)) ext) validExtensions"
  shows "parseFile getDocument XLSX_read sheet_to_csv file = ([], Inl Unsupported_file_type)"
proof -
  have x: "\<not> endsWith (name file) ''.xlsx''"
  proof
    assume "endsWith (name file) ''.xlsx''"
    then have "endsWith (toLowerCase (name file)) (toLowerCase ''.xlsx'')"
      by (rule endsWith_toLowerCase)
    then show False
      using assms(5) by (simp add: validExtensions_def toLowerCase_def toLowerCase_char_def)
  qed
  have y: "\<not> endsWith (name file) ''.xls''"
  proof
    assume "endsWith (name file) ''.xls''"
    then have "endsWith (toLowerCase (name file)) (toLowerCase ''.xls'')"
      by (rule endsWith_toLowerCase)
    then show False
      using assms(5) by (simp add: validExtensions_def toLowerCase_def toLowerCase_char_def)
  qed
  show ?thesis
    using assms(1-4) x y by (simp add: parseFile_def)
qed

lemma parseFile_by_type:
  "type_file file = ''application/pdf'' \<Longrightarrow>
     parseFile getDocument XLSX_read sheet_to_csv file
       = (fst (parsePdf getDocument file), map_sum id text_content (snd (parsePdf getDocument file)))"
  by (simp add: parseFile_def split: prod.splits)

text \<open>
  C4. A file without declared media type that the upload widget accepts by its extension
  (\<open>notes.pdf\<close>, \<open>DATA.XLSX\<close>, \<open>photo.jpg\<close>) is rejected by \<open>parseFile\<close> as
  unsupported, before any read: the PDF and image paths have no fallback to the extension,
  and the spreadsheet path compares the extension case-sensitively.
\<close>

theorem extension_only_files_rejected:
  "validateAndSelect untyped_pdf
   \<and> parseFile getDocument XLSX_read sheet_to_csv untyped_pdf = ([], Inl Unsupported_file_type)
   \<and> validateAndSelect shouting_sheet
   \<and> parseFile getDocument XLSX_read sheet_to_csv shouting_sheet = ([], Inl Unsupported_file_type)
   \<and> validateAndSelect untyped_photo
   \<and> parseFile getDocument XLSX_read sheet_to_csv untyped_photo = ([], Inl Unsupported_file_type)"
  by (simp add: validateAndSelect_def validExtensions_def validTypes_def parseFile_def
        endsWith_def startsWith_def toLowerCase_def toLowerCase_char_def
        untyped_pdf_def shouting_sheet_def untyped_photo_def)






end
